theory Spec2Isabelle
  imports Main
begin

section \<open>Python values, exceptions and HTTP errors\<close>

text \<open>
  The gateway in \<^verbatim>\<open>backend/app.py\<close> keeps two module-level dictionaries,
  \<^verbatim>\<open>cached_dict\<close> (issue-tracker clients by \<^verbatim>\<open>"domain:email"\<close>) and
  \<^verbatim>\<open>test_case_cache\<close> (generated test cases by an MD5 fingerprint), and three
  handlers that read and write them. Strings are modelled as \<^typ>\<open>string\<close>, integers as
  \<^typ>\<open>int\<close>, dictionaries as maps, exceptions as the left summand of a sum type.

  The objects returned by the issue-tracker client are duck-typed: the handler reads
  attributes by name and asks \<^verbatim>\<open>hasattr\<close>. They are modelled as values whose
  objects are association lists from attribute names to values.
\<close>

datatype pyval =
    PNone
  | PStr string
  | PList "pyval list"
  | PObj "(string \<times> pyval) list"

text \<open>
  \<^verbatim>\<open>JIRAError\<close> carries an optional status code; its second argument here is
  \<^verbatim>\<open>str(e)\<close>. Every other exception the handlers can meet is caught by
  \<^verbatim>\<open>except Exception\<close>. For attribute and validation errors
  \<open>str_exn\<close> gives a schematic text: Python's wording names the class of the object
  and lists every offending field, which the model does not keep. The text only ends up in
  the \<open>detail\<close> of a 500 error.
\<close>

datatype exn =
    JIRAError "int option" string
  | AttributeError string
  | ValidationError string
  | Exception string

fun str_exn :: "exn \<Rightarrow> string" where
  "str_exn (JIRAError sc msg) = msg"
| "str_exn (AttributeError name) = ''object has no attribute '' @ name"
| "str_exn (ValidationError field) = ''validation error for '' @ field"
| "str_exn (Exception msg) = msg"

datatype HTTPException = HTTPException (status_code: int) (detail: string)

definition bind_exn :: "exn + 'a \<Rightarrow> ('a \<Rightarrow> exn + 'b) \<Rightarrow> exn + 'b" where
  "bind_exn m f = (case m of Inl e \<Rightarrow> Inl e | Inr x \<Rightarrow> f x)"

fun hasattr :: "pyval \<Rightarrow> string \<Rightarrow> bool" where
  "hasattr (PObj attrs) name = (map_of attrs name \<noteq> None)"
| "hasattr _ name = False"

fun getattr :: "pyval \<Rightarrow> string \<Rightarrow> exn + pyval" where
  "getattr (PObj attrs) name =
     (case map_of attrs name of
        Some v \<Rightarrow> Inr v
      | None \<Rightarrow> Inl (AttributeError name))"
| "getattr _ name = Inl (AttributeError name)"

text \<open>Truth value of an object in a condition (\<^verbatim>\<open>if x\<close>, \<^verbatim>\<open>x or y\<close>).\<close>

fun truthy :: "pyval \<Rightarrow> bool" where
  "truthy PNone = False"
| "truthy (PStr s) = (s \<noteq> [])"
| "truthy (PList xs) = (xs \<noteq> [])"
| "truthy (PObj attrs) = True"

section \<open>Request and response models\<close>

record IssueFetchRequest =
  domain :: string
  email :: string
  jira_id :: string
  jira_token :: string

record StoryItem =
  key :: string
  summary :: string
  description :: "string option"
  priority :: "string option"
  status :: "string option"
  assignee :: "string option"
  due_date :: "string option"
  epic_link :: "string option"
  tags :: "string list"

record IssueFetchResponse =
  epic_key :: string
  epic_summary :: string
  epic_description :: "string option"
  stories :: "StoryItem list"

record TestCaseRequest =
  user_story :: string
  jira_id :: string
  acceptance_criteria :: "string option"

text \<open>The dictionary \<^verbatim>\<open>{"content": content, "token_count": token_count}\<close>.\<close>

record test_case_result =
  content :: string
  token_count :: int

text \<open>
  Field validation of the response models: a \<^verbatim>\<open>str\<close> field takes a string, an
  \<^verbatim>\<open>Optional[str]\<close> field a string or \<^verbatim>\<open>None\<close>, a
  \<^verbatim>\<open>list[str]\<close> field a list of strings; anything else raises. The model names the
  first offending field; the text of the report is not modelled further.
\<close>

fun as_str :: "string \<Rightarrow> pyval \<Rightarrow> exn + string" where
  "as_str field (PStr s) = Inr s"
| "as_str field _ = Inl (ValidationError field)"

fun as_optional_str :: "string \<Rightarrow> pyval \<Rightarrow> exn + string option" where
  "as_optional_str field PNone = Inr None"
| "as_optional_str field (PStr s) = Inr (Some s)"
| "as_optional_str field _ = Inl (ValidationError field)"

fun as_str_items :: "string \<Rightarrow> pyval list \<Rightarrow> exn + string list" where
  "as_str_items field [] = Inr []"
| "as_str_items field (v # vs) =
     bind_exn (as_str field v) (\<lambda>s.
     bind_exn (as_str_items field vs) (\<lambda>ss. Inr (s # ss)))"

fun as_str_list :: "string \<Rightarrow> pyval \<Rightarrow> exn + string list" where
  "as_str_list field (PList vs) = as_str_items field vs"
| "as_str_list field _ = Inl (ValidationError field)"

section \<open>Collaborators and shared state\<close>

text \<open>
  The issue-tracker client (\<^verbatim>\<open>jira.JIRA\<close>), the digest
  (\<^verbatim>\<open>hashlib.md5(s.encode()).hexdigest()\<close>), the prompt template and the language
  model (\<^verbatim>\<open>scripts.llm\<close>) are outside the file; they are parameters. A client
  handle is a value of the opaque type \<open>'h\<close>. Constructing a client and invoking the
  language model take the number of earlier calls as first argument, so that a collaborator
  may answer differently each time; requests over an established handle are functions of
  the handle and their arguments. Formatting the prompt is taken to succeed, and the
  \<^verbatim>\<open>content\<close> of the model's response to be a string.
\<close>

record 'h collaborators =
  JIRA :: "nat \<Rightarrow> string \<Rightarrow> string \<Rightarrow> string \<Rightarrow> exn + 'h"
  myself :: "'h \<Rightarrow> exn + (string \<rightharpoonup> pyval)"
  issue :: "'h \<Rightarrow> string \<Rightarrow> exn + pyval"
  search_issues :: "'h \<Rightarrow> string \<Rightarrow> nat \<Rightarrow> exn + pyval list"
  md5_hexdigest :: "string \<Rightarrow> string"
  test_case_prompt_format :: "string \<Rightarrow> string \<Rightarrow> string \<Rightarrow> string"
  llm_invoke :: "nat \<Rightarrow> string \<Rightarrow> exn + string"

text \<open>
  The two module-level dictionaries, and the number of calls made so far to the client
  constructor and to the language model (what a call-counting stub would record).
\<close>

record 'h state =
  cached_dict :: "string \<rightharpoonup> 'h"
  test_case_cache :: "string \<rightharpoonup> test_case_result"
  jira_logins :: nat
  llm_calls :: nat

definition initial_state :: "'h state" where
  "initial_state =
     \<lparr>cached_dict = Map.empty, test_case_cache = Map.empty, jira_logins = 0, llm_calls = 0\<rparr>"

section \<open>The issue-tracker handlers\<close>

text \<open>\<^verbatim>\<open>cache_key = f"{request.domain}:{request.email}"\<close> (lines 81 and 103).\<close>

definition cache_key :: "IssueFetchRequest \<Rightarrow> string" where
  "cache_key request = domain request @ '':'' @ email request"

text \<open>
  The two \<^verbatim>\<open>except\<close> clauses shared, word for word, by
  \<^verbatim>\<open>authenticate_jira\<close> (lines 85-96) and \<^verbatim>\<open>fetch_epic_stories\<close>
  (lines 160-171). \<^verbatim>\<open>e.status_code or 500\<close> is 500 when the code is
  \<^verbatim>\<open>None\<close> or 0.
\<close>

fun jira_except :: "exn \<Rightarrow> HTTPException" where
  "jira_except (JIRAError sc msg) =
     (if sc = Some 401
      then HTTPException 401 ''Authentication failed: Invalid credentials''
      else HTTPException
             (case sc of None \<Rightarrow> 500 | Some c \<Rightarrow> if c = 0 then 500 else c)
             (''JIRA Error: '' @ str_exn (JIRAError sc msg)))"
| "jira_except e = HTTPException 500 (''Error connecting with JIRA: '' @ str_exn e)"

text \<open>\<^verbatim>\<open>user.get("displayName")\<close>.\<close>

definition dict_get :: "(string \<rightharpoonup> pyval) \<Rightarrow> string \<Rightarrow> pyval" where
  "dict_get d k = (case d k of None \<Rightarrow> PNone | Some v \<Rightarrow> v)"

definition authenticate_jira ::
  "'h collaborators \<Rightarrow> IssueFetchRequest \<Rightarrow> 'h state
     \<Rightarrow> (HTTPException + (string \<times> pyval) list) \<times> 'h state" where
  "authenticate_jira co request s =
     (let s1 = s\<lparr>jira_logins := Suc (jira_logins s)\<rparr> in
      case JIRA co (jira_logins s) (domain request) (email request) (jira_token request) of
        Inl e \<Rightarrow> (Inl (jira_except e), s1)
      | Inr jira \<Rightarrow>
          (case myself co jira of
             Inl e \<Rightarrow> (Inl (jira_except e), s1)
           | Inr user \<Rightarrow>
               (Inr [(''status'', PStr ''authenticated''),
                     (''username'', dict_get user ''displayName'')],
                s1\<lparr>cached_dict := (cached_dict s1)(cache_key request \<mapsto> jira)\<rparr>)))"

text \<open>
  Lines 103-110 of \<^verbatim>\<open>fetch_epic_stories\<close>: the cached client, or a new one that is
  stored as soon as it is constructed. A client object is always true in a condition, so
  \<^verbatim>\<open>if not jira\<close> is the test for an absent key.
\<close>

definition get_client ::
  "'h collaborators \<Rightarrow> IssueFetchRequest \<Rightarrow> 'h state \<Rightarrow> (exn + 'h) \<times> 'h state" where
  "get_client co request s =
     (case cached_dict s (cache_key request) of
        Some jira \<Rightarrow> (Inr jira, s)
      | None \<Rightarrow>
          (let s1 = s\<lparr>jira_logins := Suc (jira_logins s)\<rparr> in
           case JIRA co (jira_logins s) (domain request) (email request) (jira_token request) of
             Inl e \<Rightarrow> (Inl e, s1)
           | Inr jira \<Rightarrow>
               (Inr jira, s1\<lparr>cached_dict := (cached_dict s1)(cache_key request \<mapsto> jira)\<rparr>)))"

text \<open>The body of the loop over the stories (lines 121-152), one definition per local.\<close>

definition story_tags :: "pyval \<Rightarrow> exn + pyval" where
  "story_tags story =
     bind_exn (getattr story ''fields'') (\<lambda>fields.
       if hasattr fields ''labels'' then getattr fields ''labels'' else Inr (PList []))"

definition story_assignee :: "pyval \<Rightarrow> exn + pyval" where
  "story_assignee story =
     bind_exn (getattr story ''fields'') (\<lambda>fields.
     bind_exn (getattr fields ''assignee'') (\<lambda>a.
       if truthy a then getattr a ''displayName'' else Inr PNone))"

definition story_priority :: "pyval \<Rightarrow> exn + pyval" where
  "story_priority story =
     bind_exn (getattr story ''fields'') (\<lambda>fields.
     bind_exn (getattr fields ''priority'') (\<lambda>p.
       if hasattr p ''name'' then getattr p ''name'' else Inr PNone))"

definition story_status :: "pyval \<Rightarrow> exn + pyval" where
  "story_status story =
     bind_exn (getattr story ''fields'') (\<lambda>fields.
       if hasattr fields ''name''
       then bind_exn (getattr fields ''status'') (\<lambda>st. getattr st ''name'')
       else Inr PNone)"

definition story_due_date :: "pyval \<Rightarrow> exn + pyval" where
  "story_due_date story =
     bind_exn (getattr story ''fields'') (\<lambda>fields.
       if hasattr fields ''duedate'' then getattr fields ''duedate'' else Inr PNone)"

definition story_item :: "IssueFetchRequest \<Rightarrow> pyval \<Rightarrow> exn + StoryItem" where
  "story_item request story =
     bind_exn (story_tags story) (\<lambda>tags_v.
     bind_exn (story_assignee story) (\<lambda>assignee_v.
     bind_exn (story_priority story) (\<lambda>priority_v.
     bind_exn (story_status story) (\<lambda>status_v.
     bind_exn (story_due_date story) (\<lambda>due_date_v.
     bind_exn (getattr story ''key'') (\<lambda>key_v.
     bind_exn (getattr story ''fields'') (\<lambda>fields.
     bind_exn (getattr fields ''summary'') (\<lambda>summary_v.
     bind_exn (getattr fields ''description'') (\<lambda>description_v.
     bind_exn (as_str ''key'' key_v) (\<lambda>k.
     bind_exn (as_str ''summary'' summary_v) (\<lambda>sm.
     bind_exn (as_optional_str ''description'' description_v) (\<lambda>d.
     bind_exn (as_optional_str ''priority'' priority_v) (\<lambda>p.
     bind_exn (as_optional_str ''status'' status_v) (\<lambda>st.
     bind_exn (as_optional_str ''assignee'' assignee_v) (\<lambda>a.
     bind_exn (as_optional_str ''due_date'' due_date_v) (\<lambda>dd.
     bind_exn (as_str_list ''tags'' tags_v) (\<lambda>tg.
       Inr \<lparr>key = k, summary = sm, description = d, priority = p, status = st,
            assignee = a, due_date = dd,
            epic_link = Some (IssueFetchRequest.jira_id request), tags = tg\<rparr>
     )))))))))))))))))"

fun story_items :: "IssueFetchRequest \<Rightarrow> pyval list \<Rightarrow> exn + StoryItem list" where
  "story_items request [] = Inr []"
| "story_items request (story # rest) =
     bind_exn (story_item request story) (\<lambda>item.
     bind_exn (story_items request rest) (\<lambda>items. Inr (item # items)))"

definition jql_query :: "IssueFetchRequest \<Rightarrow> string" where
  \<open>jql_query request =
     ''"Epic Link" = '' @ IssueFetchRequest.jira_id request
       @ '' AND issuetype = Story ORDER BY key ASC''\<close>

text \<open>Lines 112-159: what the handler does with the client once it has one.\<close>

definition fetch_with_client ::
  "'h collaborators \<Rightarrow> IssueFetchRequest \<Rightarrow> 'h \<Rightarrow> exn + IssueFetchResponse" where
  "fetch_with_client co request jira =
     bind_exn (issue co jira (IssueFetchRequest.jira_id request)) (\<lambda>epic.
     bind_exn (search_issues co jira (jql_query request) 100) (\<lambda>found.
     bind_exn (story_items request found) (\<lambda>items.
     bind_exn (getattr epic ''key'') (\<lambda>key_v.
     bind_exn (getattr epic ''fields'') (\<lambda>fields.
     bind_exn (getattr fields ''summary'') (\<lambda>summary_v.
     bind_exn (getattr fields ''description'') (\<lambda>description_v.
     bind_exn (as_str ''epic_key'' key_v) (\<lambda>k.
     bind_exn (as_str ''epic_summary'' summary_v) (\<lambda>sm.
     bind_exn (as_optional_str ''epic_description'' description_v) (\<lambda>d.
       Inr \<lparr>epic_key = k, epic_summary = sm, epic_description = d, stories = items\<rparr>
     ))))))))))"

definition fetch_epic_stories ::
  "'h collaborators \<Rightarrow> IssueFetchRequest \<Rightarrow> 'h state
     \<Rightarrow> (HTTPException + IssueFetchResponse) \<times> 'h state" where
  "fetch_epic_stories co request s =
     (case get_client co request s of
        (Inl e, s1) \<Rightarrow> (Inl (jira_except e), s1)
      | (Inr jira, s1) \<Rightarrow>
          (case fetch_with_client co request jira of
             Inl e \<Rightarrow> (Inl (jira_except e), s1)
           | Inr response \<Rightarrow> (Inr response, s1)))"

section \<open>The response cache\<close>

text \<open>
  \<^verbatim>\<open>create_cache_key\<close> (lines 174-176), with the digest as parameter:
  \<^verbatim>\<open>combined = f"{user_story}|{jira_id}|{acceptance_criteria}"\<close>.
\<close>

definition combined :: "string \<Rightarrow> string \<Rightarrow> string \<Rightarrow> string" where
  "combined story jid criteria = story @ ''|'' @ jid @ ''|'' @ criteria"

definition create_cache_key ::
  "(string \<Rightarrow> string) \<Rightarrow> string \<Rightarrow> string \<Rightarrow> string \<Rightarrow> string" where
  "create_cache_key md5 story jid criteria = md5 (combined story jid criteria)"

text \<open>\<^verbatim>\<open>request.acceptance_criteria or ""\<close>.\<close>

definition or_empty :: "string option \<Rightarrow> string" where
  "or_empty v = (case v of None \<Rightarrow> [] | Some a \<Rightarrow> if a = [] then [] else a)"

text \<open>
  \<^verbatim>\<open>str.isspace\<close> on the code points below 256, and \<^verbatim>\<open>str.split()\<close> without
  arguments: skip a run of whitespace, take the run of other characters that follows,
  repeat.
\<close>

definition isspace :: "char \<Rightarrow> bool" where
  "isspace c =
     (let n = (of_char c :: nat)
      in (9 \<le> n \<and> n \<le> 13) \<or> (28 \<le> n \<and> n \<le> 32) \<or> n = 133 \<or> n = 160)"

function split :: "string \<Rightarrow> string list" where
  "split s =
     (let s1 = dropWhile isspace s
      in if s1 = [] then []
         else takeWhile (\<lambda>c. \<not> isspace c) s1 # split (dropWhile (\<lambda>c. \<not> isspace c) s1))"
  by pat_completeness auto
termination
proof (relation "measure length")
  show "wf (measure length)" by simp
next
  fix s s1 :: string
  assume s1: "s1 = dropWhile isspace s" and ne: "s1 \<noteq> []"
  from ne obtain c cs where c: "s1 = c # cs" by (cases s1) auto
  from s1 ne have "\<not> isspace (hd s1)" using hd_dropWhile [of isspace s] by simp
  with c have "length (dropWhile (\<lambda>c. \<not> isspace c) s1) \<le> length cs"
    by (simp add: length_dropWhile_le)
  moreover have "length s1 \<le> length s" using s1 by (simp add: length_dropWhile_le)
  ultimately show "(dropWhile (\<lambda>c. \<not> isspace c) s1, s) \<in> measure length"
    using c by simp
qed

declare split.simps [simp del]

text \<open>Lines 186-188: the fingerprint of a request.\<close>

definition request_cache_key :: "'h collaborators \<Rightarrow> TestCaseRequest \<Rightarrow> string" where
  "request_cache_key co request =
     create_cache_key (md5_hexdigest co) (user_story request)
       (TestCaseRequest.jira_id request) (or_empty (acceptance_criteria request))"

definition generate_test_cases ::
  "'h collaborators \<Rightarrow> TestCaseRequest \<Rightarrow> 'h state
     \<Rightarrow> (HTTPException + test_case_result) \<times> 'h state" where
  "generate_test_cases co request s =
     (let ckey = request_cache_key co request
      in case test_case_cache s ckey of
           Some cached \<Rightarrow> (Inr cached, s)
         | None \<Rightarrow>
             (let formatted_prompt =
                    test_case_prompt_format co (user_story request)
                      (TestCaseRequest.jira_id request)
                      (or_empty (acceptance_criteria request));
                  s1 = s\<lparr>llm_calls := Suc (llm_calls s)\<rparr>
              in case llm_invoke co (llm_calls s) formatted_prompt of
                   Inl e \<Rightarrow>
                     (Inl (HTTPException 500 (''Error generating test cases: '' @ str_exn e)),
                      s1)
                 | Inr text \<Rightarrow>
                     (let result = \<lparr>content = text, token_count = int (length (split text))\<rparr>
                      in (Inr result,
                          s1\<lparr>test_case_cache := (test_case_cache s1)(ckey \<mapsto> result)\<rparr>))))"

section \<open>Notions of the specification\<close>

text \<open>
  The number of whitespace-delimited tokens of a string, in the words of the
  specification rather than of the code: a token starts at every character that is not
  whitespace and that stands first in the string or right after a whitespace character.
\<close>

fun token_starts :: "bool \<Rightarrow> string \<Rightarrow> nat" where
  "token_starts after_space [] = 0"
| "token_starts after_space (c # cs) =
     (if isspace c then token_starts True cs
      else (if after_space then 1 else 0) + token_starts False cs)"

definition whitespace_tokens :: "string \<Rightarrow> nat" where
  "whitespace_tokens s = token_starts True s"

text \<open>
  The status the error taxonomy gives to a failure of the issue tracker: the upstream
  status code where the error carries one, 500 otherwise. Only \<^verbatim>\<open>JIRAError\<close> has a
  status code; as in Python's \<^verbatim>\<open>or\<close>, a code of 0 counts as none.
\<close>

definition upstream_status :: "exn \<Rightarrow> int option" where
  "upstream_status e =
     (case e of JIRAError sc msg \<Rightarrow> (if sc = Some 0 then None else sc) | _ \<Rightarrow> None)"

definition surfaced_status :: "exn \<Rightarrow> int" where
  "surfaced_status e = (case upstream_status e of Some c \<Rightarrow> c | None \<Rightarrow> 500)"

text \<open>The states the process can be in: any sequence of requests from the empty caches.\<close>

inductive reachable :: "'h collaborators \<Rightarrow> 'h state \<Rightarrow> bool"
  for co :: "'h collaborators" where
  start: "reachable co initial_state"
| authenticate: "reachable co s \<Longrightarrow> reachable co (snd (authenticate_jira co request s))"
| fetch: "reachable co s \<Longrightarrow> reachable co (snd (fetch_epic_stories co request s))"
| generate: "reachable co s \<Longrightarrow> reachable co (snd (generate_test_cases co tc_request s))"

text \<open>
  Requests one after the other: the state after a request is handled, and after a list
  of them.
\<close>

datatype api_request =
    Authenticate IssueFetchRequest
  | FetchStories IssueFetchRequest
  | GenerateTestCases TestCaseRequest

fun serve :: "'h collaborators \<Rightarrow> api_request \<Rightarrow> 'h state \<Rightarrow> 'h state" where
  "serve co (Authenticate request) s = snd (authenticate_jira co request s)"
| "serve co (FetchStories request) s = snd (fetch_epic_stories co request s)"
| "serve co (GenerateTestCases request) s = snd (generate_test_cases co request s)"

fun serve_all :: "'h collaborators \<Rightarrow> api_request list \<Rightarrow> 'h state \<Rightarrow> 'h state" where
  "serve_all co [] s = s"
| "serve_all co (q # qs) s = serve_all co qs (serve co q s)"

section \<open>Stub collaborators\<close>

text \<open>
  Collaborators for the scenarios of the specification. The tracker rejects the token
  \<^verbatim>\<open>badtoken\<close> with status 401, hands out the number of the login as handle, knows
  the epic \<^verbatim>\<open>PROJ-10\<close> and answers 404 for any other issue; its query returns two
  stories, both with status \<^verbatim>\<open>Open\<close>, the second with an additional attribute
  \<^verbatim>\<open>name\<close> on its fields. The digest is the identity. The language model fails on
  an empty prompt and otherwise gives a different answer to its first call than to the
  later ones.
\<close>

definition stub_story :: "string \<Rightarrow> (string \<times> pyval) list \<Rightarrow> pyval" where
  "stub_story k extra =
     PObj [(''key'', PStr k),
           (''fields'', PObj (extra @
              [(''summary'', PStr ''Log in''), (''description'', PNone),
               (''labels'', PList [PStr ''ui'']), (''assignee'', PNone),
               (''priority'', PObj [(''name'', PStr ''High'')]),
               (''status'', PObj [(''name'', PStr ''Open'')]),
               (''duedate'', PNone)]))]"

definition stub :: "nat collaborators" where
  "stub =
     \<lparr>JIRA = (\<lambda>n server user token.
          if token = ''badtoken'' then Inl (JIRAError (Some 401) ''Unauthorized'') else Inr n),
      myself = (\<lambda>h. Inr [''displayName'' \<mapsto> PStr ''A B'']),
      issue = (\<lambda>h k.
          if k = ''PROJ-10''
          then Inr (PObj [(''key'', PStr ''PROJ-10''),
                          (''fields'', PObj [(''summary'', PStr ''Accounts''),
                                             (''description'', PNone)])])
          else Inl (JIRAError (Some 404) ''Issue does not exist'')),
      search_issues = (\<lambda>h q n.
          Inr [stub_story ''PROJ-11'' [], stub_story ''PROJ-12'' [(''name'', PStr ''x'')]]),
      md5_hexdigest = (\<lambda>s. s),
      test_case_prompt_format = (\<lambda>u j a. u @ j @ a),
      llm_invoke = (\<lambda>n prompt.
          if prompt = [] then Inl (Exception ''empty prompt'')
          else if n = 0 then Inr ''Verify login  works'' else Inr ''Another answer'')\<rparr>"

definition stub_request :: "string \<Rightarrow> string \<Rightarrow> IssueFetchRequest" where
  "stub_request epic token =
     \<lparr>domain = ''https://x.atlassian.net'', email = ''a@b.com'', jira_id = epic,
      jira_token = token\<rparr>"

definition stub_response :: IssueFetchResponse where
  "stub_response =
     \<lparr>epic_key = ''PROJ-10'', epic_summary = ''Accounts'', epic_description = None,
      stories =
        [\<lparr>key = ''PROJ-11'', summary = ''Log in'', description = None,
           priority = Some ''High'', status = None, assignee = None,
           due_date = None, epic_link = Some ''PROJ-10'', tags = [''ui'']\<rparr>,
         \<lparr>key = ''PROJ-12'', summary = ''Log in'', description = None,
           priority = Some ''High'', status = Some ''Open'', assignee = None,
           due_date = None, epic_link = Some ''PROJ-10'', tags = [''ui'']\<rparr>]\<rparr>"

definition scenario_b :: TestCaseRequest where
  "scenario_b =
     \<lparr>user_story = ''As a user...'', jira_id = ''PROJ-1'', acceptance_criteria = Some ''''\<rparr>"

text \<open>
  A second request, and a language model that fails when first invoked and answers from
  then on.
\<close>

definition other_request :: TestCaseRequest where
  "other_request =
     \<lparr>user_story = ''As an admin...'', jira_id = ''PROJ-2'', acceptance_criteria = None\<rparr>"

definition flaky_stub :: "nat collaborators" where
  "flaky_stub =
     stub\<lparr>llm_invoke := (\<lambda>n prompt.
        if n = 0 then Inl (Exception ''timed out'') else Inr ''Verify login  works'')\<rparr>"

section \<open>Key derivation\<close>

text \<open>
  Both keys are built by joining fields with a one-character delimiter. A string is cut
  in one way only at the first occurrence of the delimiter, or at the last one.
\<close>

lemma cut_at_first:
  assumes "x \<notin> set a" and "x \<notin> set a'" and "a @ x # b = a' @ x # b'"
  shows "a = a' \<and> b = b'"
  using assms
proof (induction a arbitrary: a')
  case Nil
  then show ?case by (cases a') auto
next
  case (Cons y a)
  then show ?case by (cases a') auto
qed


lemma combined_one_field:
  "combined d i c = combined d' i c \<longleftrightarrow> d = d'"
  "combined d i c = combined d i' c \<longleftrightarrow> i = i'"
  "combined d i c = combined d i c' \<longleftrightarrow> c = c'"
  by (simp_all add: combined_def)

lemma combined_no_delimiter:
  assumes "CHR ''|'' \<notin> set d \<union> set i \<union> set d' \<union> set i'"
    and "combined d i c = combined d' i' c'"
  shows "d = d' \<and> i = i' \<and> c = c'"
proof -
  from assms(2) have eq: "d @ CHR ''|'' # (i @ CHR ''|'' # c) = d' @ CHR ''|'' # (i' @ CHR ''|'' # c')"
    by (simp add: combined_def)
  from assms(1) have "d = d' \<and> i @ CHR ''|'' # c = i' @ CHR ''|'' # c'"
    using cut_at_first [OF _ _ eq] by simp
  moreover from this assms(1) have "i = i' \<and> c = c'"
    using cut_at_first [of "CHR ''|''" i i' c c'] by simp
  ultimately show ?thesis by simp
qed

text \<open>
  The delimiter may also occur inside a field. Moving a piece of the first field across
  the delimiter into the second leaves the joined string, and so the key, as it was,
  whatever the digest.
\<close>

lemma create_cache_key_delimiter_shift:
  "create_cache_key md5 (d @ ''|'' @ x) i c = create_cache_key md5 d (x @ ''|'' @ i) c"
  by (simp add: create_cache_key_def combined_def)

lemma cache_key_delimiter_shift:
  "cache_key (request\<lparr>domain := d @ '':'' @ x, email := e\<rparr>)
     = cache_key (request\<lparr>domain := d, email := x @ '':'' @ e\<rparr>)"
  by (simp add: cache_key_def)

text \<open>
  Claim C1, as amended. The fingerprint is a function of its three arguments: equal triples
  give equal keys. Two triples that differ in exactly one field, or that differ anywhere
  while the description and the identifier of both are free of the delimiter \<open>|\<close>, hand
  different strings to the digest; their keys are then different unless the digest itself
  collides on these two strings.
\<close>

theorem create_cache_key_fingerprint:
  "((d, i, c) = (d', i', c')
      \<longrightarrow> create_cache_key md5 d i c = create_cache_key md5 d' i' c')
   \<and> ((d, i, c) \<noteq> (d', i', c')
        \<and> ((i = i' \<and> c = c') \<or> (d = d' \<and> c = c') \<or> (d = d' \<and> i = i')
             \<or> CHR ''|'' \<notin> set d \<union> set i \<union> set d' \<union> set i')
        \<and> (md5 (combined d i c) = md5 (combined d' i' c')
               \<longrightarrow> combined d i c = combined d' i' c')
      \<longrightarrow> create_cache_key md5 d i c \<noteq> create_cache_key md5 d' i' c')"
proof (intro conjI impI)
  assume "(d, i, c) = (d', i', c')"
  then show "create_cache_key md5 d i c = create_cache_key md5 d' i' c'" by simp
next
  assume h: "(d, i, c) \<noteq> (d', i', c')
        \<and> ((i = i' \<and> c = c') \<or> (d = d' \<and> c = c') \<or> (d = d' \<and> i = i')
             \<or> CHR ''|'' \<notin> set d \<union> set i \<union> set d' \<union> set i')
        \<and> (md5 (combined d i c) = md5 (combined d' i' c')
               \<longrightarrow> combined d i c = combined d' i' c')"
  have "combined d i c \<noteq> combined d' i' c'"
  proof
    assume eq: "combined d i c = combined d' i' c'"
    from h consider "i = i' \<and> c = c'" | "d = d' \<and> c = c'" | "d = d' \<and> i = i'"
      | "CHR ''|'' \<notin> set d \<union> set i \<union> set d' \<union> set i'" by blast
    then have "d = d' \<and> i = i' \<and> c = c'"
    proof cases
      case 1 with eq show ?thesis by (simp add: combined_one_field)
    next
      case 2 with eq show ?thesis by (simp add: combined_one_field)
    next
      case 3 with eq show ?thesis by (simp add: combined_one_field)
    next
      case 4 then show ?thesis using combined_no_delimiter [OF _ eq] by simp
    qed
    with h show False by simp
  qed
  with h show "create_cache_key md5 d i c \<noteq> create_cache_key md5 d' i' c'"
    by (auto simp: create_cache_key_def)
qed

text \<open>
  The theorem at a digest that never collides (the identity): the same request twice, and
  two requests that differ by one trailing blank in the description.
\<close>

theorem create_cache_key_fingerprint_witness:
  "create_cache_key (\<lambda>s. s) ''As a user'' ''PROJ-1'' ''''
     = create_cache_key (\<lambda>s. s) ''As a user'' ''PROJ-1'' ''''
   \<and> create_cache_key (\<lambda>s. s) ''As a user'' ''PROJ-1'' ''''
     \<noteq> create_cache_key (\<lambda>s. s) ''As a user '' ''PROJ-1'' ''''"
  using create_cache_key_fingerprint [of "''As a user''" "''PROJ-1''" "''''" "''As a user''" "''PROJ-1''" "''''" "\<lambda>s. s"]
    create_cache_key_fingerprint [of "''As a user''" "''PROJ-1''" "''''" "''As a user ''" "''PROJ-1''" "''''" "\<lambda>s. s"]
  by simp

text \<open>
  Claim C1 as stated fails: these two requests differ in the description and in the
  identifier, and their keys are equal with certainty. The digest is the identity here,
  which has no collisions at all; by \<open>create_cache_key_delimiter_shift\<close> the keys are
  equal under every digest.
\<close>

theorem create_cache_key_collision:
  "(''Login|Logout'', ''PROJ-1'', '''') \<noteq> (''Login'', ''Logout|PROJ-1'', '''')
   \<and> create_cache_key (\<lambda>s. s) ''Login|Logout'' ''PROJ-1'' ''''
     = create_cache_key (\<lambda>s. s) ''Login'' ''Logout|PROJ-1'' ''''"
  using create_cache_key_delimiter_shift [of "\<lambda>s. s" "''Login''" "''Logout''" "''PROJ-1''" "''''"]
  by simp




text \<open>
  Claim C8. A request without acceptance criteria and one whose criteria are the empty
  string have the same fingerprint, and the handler does the same with both.
\<close>

theorem absent_criteria_same_key:
  "request_cache_key co (request\<lparr>acceptance_criteria := None\<rparr>)
     = request_cache_key co (request\<lparr>acceptance_criteria := Some ''''\<rparr>)
   \<and> generate_test_cases co (request\<lparr>acceptance_criteria := None\<rparr>) s
     = generate_test_cases co (request\<lparr>acceptance_criteria := Some ''''\<rparr>) s"
  by (simp add: request_cache_key_def generate_test_cases_def or_empty_def Let_def
      split: option.split sum.split)

section \<open>Failures of the issue tracker\<close>

text \<open>
  What each handler returns, case by case. Both handlers turn an exception \<open>e\<close> into
  \<open>jira_except e\<close>; neither touches the response cache.
\<close>

lemma authenticate_failure:
  "JIRA co (jira_logins s) (domain request) (email request) (jira_token request) = Inl e
   \<or> (\<exists>jira. JIRA co (jira_logins s) (domain request) (email request) (jira_token request)
                = Inr jira \<and> myself co jira = Inl e)
   \<Longrightarrow> authenticate_jira co request s
         = (Inl (jira_except e), s\<lparr>jira_logins := Suc (jira_logins s)\<rparr>)"
  by (auto simp: authenticate_jira_def Let_def)

lemma status_code_jira_except: "status_code (jira_except e) = surfaced_status e"
  by (cases e) (auto simp: surfaced_status_def upstream_status_def split: option.splits)

lemma get_client_miss_failure:
  "cached_dict s (cache_key request) = None \<Longrightarrow>
   JIRA co (jira_logins s) (domain request) (email request) (jira_token request) = Inl e \<Longrightarrow>
   get_client co request s = (Inl e, s\<lparr>jira_logins := Suc (jira_logins s)\<rparr>)"
  by (simp add: get_client_def Let_def)

lemma get_client_miss_success:
  "cached_dict s (cache_key request) = None \<Longrightarrow>
   JIRA co (jira_logins s) (domain request) (email request) (jira_token request) = Inr jira \<Longrightarrow>
   get_client co request s
     = (Inr jira, s\<lparr>jira_logins := Suc (jira_logins s),
                     cached_dict := (cached_dict s)(cache_key request \<mapsto> jira)\<rparr>)"
  by (simp add: get_client_def Let_def)

lemma get_client_hit:
  "cached_dict s (cache_key request) = Some jira \<Longrightarrow> get_client co request s = (Inr jira, s)"
  by (simp add: get_client_def)

lemma fetch_epic_stories_client_failure:
  "get_client co request s = (Inl e, s1) \<Longrightarrow>
   fetch_epic_stories co request s = (Inl (jira_except e), s1)"
  by (simp add: fetch_epic_stories_def)

lemma fetch_epic_stories_later_failure:
  "get_client co request s = (Inr jira, s1) \<Longrightarrow> fetch_with_client co request jira = Inl e \<Longrightarrow>
   fetch_epic_stories co request s = (Inl (jira_except e), s1)"
  by (simp add: fetch_epic_stories_def)

lemma fetch_with_client_issue_failure:
  "issue co jira (IssueFetchRequest.jira_id request) = Inl e \<Longrightarrow>
   fetch_with_client co request jira = Inl e"
  by (simp add: fetch_with_client_def bind_exn_def)

lemma fetch_with_client_search_failure:
  "issue co jira (IssueFetchRequest.jira_id request) = Inr epic \<Longrightarrow>
   search_issues co jira (jql_query request) 100 = Inl e \<Longrightarrow>
   fetch_with_client co request jira = Inl e"
  by (simp add: fetch_with_client_def bind_exn_def)

lemma bind_exn_Inr: "bind_exn m f = Inr y \<longleftrightarrow> (\<exists>x. m = Inr x \<and> f x = Inr y)"
  by (cases m) (simp_all add: bind_exn_def)

text \<open>
  Claim C4. When the tracker answers an authentication request with status 401, either
  while the client is constructed or at the \<^verbatim>\<open>myself()\<close> check, the caller gets
  the 401 error, \<^verbatim>\<open>cached_dict\<close> is what it was, and a key that was absent is
  still absent.
\<close>

theorem authenticate_jira_unauthorized:
  "JIRA co (jira_logins s) (domain request) (email request) (jira_token request)
     = Inl (JIRAError (Some 401) msg)
   \<or> (\<exists>jira. JIRA co (jira_logins s) (domain request) (email request) (jira_token request)
                = Inr jira \<and> myself co jira = Inl (JIRAError (Some 401) msg))
   \<longrightarrow> fst (authenticate_jira co request s)
         = Inl (HTTPException 401 ''Authentication failed: Invalid credentials'')
       \<and> cached_dict (snd (authenticate_jira co request s)) = cached_dict s
       \<and> (cached_dict s (cache_key request) = None
            \<longrightarrow> cached_dict (snd (authenticate_jira co request s)) (cache_key request) = None)"
proof
  assume "JIRA co (jira_logins s) (domain request) (email request) (jira_token request)
     = Inl (JIRAError (Some 401) msg)
   \<or> (\<exists>jira. JIRA co (jira_logins s) (domain request) (email request) (jira_token request)
                = Inr jira \<and> myself co jira = Inl (JIRAError (Some 401) msg))"
  then have "authenticate_jira co request s
      = (Inl (jira_except (JIRAError (Some 401) msg)), s\<lparr>jira_logins := Suc (jira_logins s)\<rparr>)"
    by (rule authenticate_failure)
  then show "fst (authenticate_jira co request s)
         = Inl (HTTPException 401 ''Authentication failed: Invalid credentials'')
       \<and> cached_dict (snd (authenticate_jira co request s)) = cached_dict s
       \<and> (cached_dict s (cache_key request) = None
            \<longrightarrow> cached_dict (snd (authenticate_jira co request s)) (cache_key request) = None)"
    by simp
qed

text \<open>
  Scenario A of the specification.
\<close>

theorem authenticate_jira_unauthorized_witness:
  "fst (authenticate_jira stub (stub_request ''PROJ-10'' ''badtoken'') initial_state)
     = Inl (HTTPException 401 ''Authentication failed: Invalid credentials'')
   \<and> cached_dict (snd (authenticate_jira stub (stub_request ''PROJ-10'' ''badtoken'')
        initial_state)) (cache_key (stub_request ''PROJ-10'' ''badtoken'')) = None"
  using authenticate_jira_unauthorized [of stub initial_state
      "stub_request ''PROJ-10'' ''badtoken''" "''Unauthorized''"]
  by (simp add: stub_def stub_request_def initial_state_def)

text \<open>
  Claim C7. Whatever call to the tracker fails, in \<^verbatim>\<open>authenticate_jira\<close> or in
  \<^verbatim>\<open>fetch_epic_stories\<close>, the caller gets an error whose status is the upstream
  status code where there is one (401 for invalid credentials) and 500 otherwise.
\<close>

theorem issue_tracker_failure_status:
  "((JIRA co (jira_logins s) (domain request) (email request) (jira_token request) = Inl e
      \<or> (\<exists>jira. JIRA co (jira_logins s) (domain request) (email request) (jira_token request)
                   = Inr jira \<and> myself co jira = Inl e))
     \<longrightarrow> (\<exists>h. fst (authenticate_jira co request s) = Inl h
              \<and> status_code h = surfaced_status e))
   \<and> ((fst (get_client co request s) = Inl e
        \<or> (\<exists>jira. fst (get_client co request s) = Inr jira
              \<and> (issue co jira (IssueFetchRequest.jira_id request) = Inl e
                  \<or> (\<exists>epic. issue co jira (IssueFetchRequest.jira_id request) = Inr epic
                        \<and> search_issues co jira (jql_query request) 100 = Inl e))))
       \<longrightarrow> (\<exists>h. fst (fetch_epic_stories co request s) = Inl h
                \<and> status_code h = surfaced_status e))"
proof (intro conjI impI)
  assume "JIRA co (jira_logins s) (domain request) (email request) (jira_token request) = Inl e
      \<or> (\<exists>jira. JIRA co (jira_logins s) (domain request) (email request) (jira_token request)
                   = Inr jira \<and> myself co jira = Inl e)"
  then have "fst (authenticate_jira co request s) = Inl (jira_except e)"
    by (simp add: authenticate_failure)
  then show "\<exists>h. fst (authenticate_jira co request s) = Inl h \<and> status_code h = surfaced_status e"
    by (simp add: status_code_jira_except)
next
  assume a: "fst (get_client co request s) = Inl e
        \<or> (\<exists>jira. fst (get_client co request s) = Inr jira
              \<and> (issue co jira (IssueFetchRequest.jira_id request) = Inl e
                  \<or> (\<exists>epic. issue co jira (IssueFetchRequest.jira_id request) = Inr epic
                        \<and> search_issues co jira (jql_query request) 100 = Inl e)))"
  obtain r s1 where g: "get_client co request s = (r, s1)" by (cases "get_client co request s")
  have "fst (fetch_epic_stories co request s) = Inl (jira_except e)"
  proof (cases r)
    case (Inl e')
    with a g have "e' = e" by auto
    with g Inl show ?thesis by (simp add: fetch_epic_stories_client_failure)
  next
    case (Inr jira)
    with a g have "fetch_with_client co request jira = Inl e"
      by (auto simp: fetch_with_client_issue_failure fetch_with_client_search_failure)
    with g Inr show ?thesis by (simp add: fetch_epic_stories_later_failure)
  qed
  then show "\<exists>h. fst (fetch_epic_stories co request s) = Inl h \<and> status_code h = surfaced_status e"
    by (simp add: status_code_jira_except)
qed

theorem issue_tracker_failure_status_witness:
  "(\<exists>h. fst (authenticate_jira stub (stub_request ''PROJ-10'' ''badtoken'') initial_state) = Inl h
        \<and> status_code h = 401)
   \<and> (\<exists>h. fst (fetch_epic_stories stub (stub_request ''PROJ-99'' ''tok'') initial_state) = Inl h
        \<and> status_code h = 404)"
  using issue_tracker_failure_status [of stub initial_state "stub_request ''PROJ-10'' ''badtoken''"
      "JIRAError (Some 401) ''Unauthorized''"]
    issue_tracker_failure_status [of stub initial_state "stub_request ''PROJ-99'' ''tok''"
      "JIRAError (Some 404) ''Issue does not exist''"]
  by (simp add: stub_def stub_request_def initial_state_def get_client_def cache_key_def
      surfaced_status_def upstream_status_def)

text \<open>
  Claim C3, as amended. In \<^verbatim>\<open>fetch_epic_stories\<close>, a miss followed by a failure of
  the client constructor leaves both caches as they were and returns the error; when the
  constructor succeeds and a later call on the new client fails, the error is returned as
  well, and the new client stays in \<^verbatim>\<open>cached_dict\<close> under the request's key. In
  \<^verbatim>\<open>generate_test_cases\<close>, a miss followed by a failure of the language model
  leaves both caches as they were and returns a 500 error.
\<close>

theorem cache_miss_failure:
  "(cached_dict s (cache_key request) = None
      \<and> JIRA co (jira_logins s) (domain request) (email request) (jira_token request) = Inl e
    \<longrightarrow> fst (fetch_epic_stories co request s) = Inl (jira_except e)
        \<and> cached_dict (snd (fetch_epic_stories co request s)) = cached_dict s
        \<and> test_case_cache (snd (fetch_epic_stories co request s)) = test_case_cache s)
   \<and> (cached_dict s (cache_key request) = None
        \<and> JIRA co (jira_logins s) (domain request) (email request) (jira_token request)
            = Inr jira
        \<and> fetch_with_client co request jira = Inl e
      \<longrightarrow> fst (fetch_epic_stories co request s) = Inl (jira_except e)
          \<and> cached_dict (snd (fetch_epic_stories co request s))
              = (cached_dict s)(cache_key request \<mapsto> jira)
          \<and> test_case_cache (snd (fetch_epic_stories co request s)) = test_case_cache s)
   \<and> (test_case_cache s (request_cache_key co tc_request) = None
        \<and> llm_invoke co (llm_calls s)
             (test_case_prompt_format co (user_story tc_request)
                (TestCaseRequest.jira_id tc_request)
                (or_empty (acceptance_criteria tc_request))) = Inl e
      \<longrightarrow> fst (generate_test_cases co tc_request s)
            = Inl (HTTPException 500 (''Error generating test cases: '' @ str_exn e))
          \<and> test_case_cache (snd (generate_test_cases co tc_request s)) = test_case_cache s
          \<and> cached_dict (snd (generate_test_cases co tc_request s)) = cached_dict s)"
proof (intro conjI impI)
  assume a: "cached_dict s (cache_key request) = None
      \<and> JIRA co (jira_logins s) (domain request) (email request) (jira_token request) = Inl e"
  then have "fetch_epic_stories co request s
      = (Inl (jira_except e), s\<lparr>jira_logins := Suc (jira_logins s)\<rparr>)"
    by (simp add: fetch_epic_stories_client_failure get_client_miss_failure)
  then show "fst (fetch_epic_stories co request s) = Inl (jira_except e)"
    and "cached_dict (snd (fetch_epic_stories co request s)) = cached_dict s"
    and "test_case_cache (snd (fetch_epic_stories co request s)) = test_case_cache s"
    by simp_all
next
  assume a: "cached_dict s (cache_key request) = None
        \<and> JIRA co (jira_logins s) (domain request) (email request) (jira_token request)
            = Inr jira
        \<and> fetch_with_client co request jira = Inl e"
  then have "fetch_epic_stories co request s
      = (Inl (jira_except e), s\<lparr>jira_logins := Suc (jira_logins s),
                     cached_dict := (cached_dict s)(cache_key request \<mapsto> jira)\<rparr>)"
    using fetch_epic_stories_later_failure [of co request s jira _ e]
    by (simp add: get_client_miss_success)
  then show "fst (fetch_epic_stories co request s) = Inl (jira_except e)"
    and "cached_dict (snd (fetch_epic_stories co request s))
              = (cached_dict s)(cache_key request \<mapsto> jira)"
    and "test_case_cache (snd (fetch_epic_stories co request s)) = test_case_cache s"
    by simp_all
next
  assume a: "test_case_cache s (request_cache_key co tc_request) = None
        \<and> llm_invoke co (llm_calls s)
             (test_case_prompt_format co (user_story tc_request)
                (TestCaseRequest.jira_id tc_request)
                (or_empty (acceptance_criteria tc_request))) = Inl e"
  then have "generate_test_cases co tc_request s
      = (Inl (HTTPException 500 (''Error generating test cases: '' @ str_exn e)),
         s\<lparr>llm_calls := Suc (llm_calls s)\<rparr>)"
    by (simp add: generate_test_cases_def Let_def)
  then show "fst (generate_test_cases co tc_request s)
            = Inl (HTTPException 500 (''Error generating test cases: '' @ str_exn e))"
    and "test_case_cache (snd (generate_test_cases co tc_request s)) = test_case_cache s"
    and "cached_dict (snd (generate_test_cases co tc_request s)) = cached_dict s"
    by simp_all
qed

theorem cache_miss_failure_witness:
  "fst (fetch_epic_stories stub (stub_request ''PROJ-10'' ''badtoken'') initial_state)
     = Inl (HTTPException 401 ''Authentication failed: Invalid credentials'')
   \<and> cached_dict (snd (fetch_epic_stories stub (stub_request ''PROJ-10'' ''badtoken'')
        initial_state)) = Map.empty
   \<and> cached_dict (snd (fetch_epic_stories stub (stub_request ''PROJ-99'' ''tok'')
        initial_state)) = [cache_key (stub_request ''PROJ-99'' ''tok'') \<mapsto> 0]
   \<and> fst (generate_test_cases stub
          \<lparr>user_story = '''', jira_id = '''', acceptance_criteria = None\<rparr> initial_state)
     = Inl (HTTPException 500 ''Error generating test cases: empty prompt'')
   \<and> test_case_cache (snd (generate_test_cases stub
          \<lparr>user_story = '''', jira_id = '''', acceptance_criteria = None\<rparr> initial_state))
     = Map.empty"
  using cache_miss_failure [where s = "initial_state :: nat state" and co = stub
      and request = "stub_request ''PROJ-10'' ''badtoken''" and e = "JIRAError (Some 401) ''Unauthorized''" and jira = 0
      and tc_request = "\<lparr>user_story = '''', jira_id = '''', acceptance_criteria = None\<rparr>"]
    cache_miss_failure [where s = "initial_state :: nat state" and co = stub
      and request = "stub_request ''PROJ-99'' ''tok''" and e = "JIRAError (Some 404) ''Issue does not exist''" and jira = 0
      and tc_request = "\<lparr>user_story = '''', jira_id = '''', acceptance_criteria = None\<rparr>"]
    cache_miss_failure [where s = "initial_state :: nat state" and co = stub
      and request = "stub_request ''PROJ-99'' ''tok''" and e = "Exception ''empty prompt''" and jira = 0
      and tc_request = "\<lparr>user_story = '''', jira_id = '''', acceptance_criteria = None\<rparr>"]
  by (simp add: stub_def stub_request_def initial_state_def fetch_with_client_def bind_exn_def
      or_empty_def)

text \<open>
  Claim C3 as stated fails: the session cache is empty, the client is constructed, the
  lookup of the epic fails with status 404, and the cache now holds the client.
\<close>

theorem fetch_epic_stories_stores_before_use:
  "cached_dict (initial_state :: nat state) (cache_key (stub_request ''PROJ-99'' ''tok'')) = None
   \<and> issue stub 0 ''PROJ-99'' = Inl (JIRAError (Some 404) ''Issue does not exist'')
   \<and> fst (fetch_epic_stories stub (stub_request ''PROJ-99'' ''tok'') initial_state)
       = Inl (HTTPException 404 ''JIRA Error: Issue does not exist'')
   \<and> cached_dict (snd (fetch_epic_stories stub (stub_request ''PROJ-99'' ''tok'') initial_state))
        (cache_key (stub_request ''PROJ-99'' ''tok'')) = Some 0
   \<and> cached_dict (snd (fetch_epic_stories stub (stub_request ''PROJ-99'' ''tok'') initial_state))
       \<noteq> cached_dict (initial_state :: nat state)"
proof -
  have miss: "cached_dict (initial_state :: nat state) (cache_key (stub_request ''PROJ-99'' ''tok'')) = None"
    by (simp add: initial_state_def)
  have iss: "issue stub 0 ''PROJ-99'' = Inl (JIRAError (Some 404) ''Issue does not exist'')"
    by (simp add: stub_def)
  have g: "get_client stub (stub_request ''PROJ-99'' ''tok'') initial_state
      = (Inr 0, initial_state\<lparr>jira_logins := Suc 0,
           cached_dict := [cache_key (stub_request ''PROJ-99'' ''tok'') \<mapsto> 0]\<rparr>)"
    using get_client_miss_success [OF miss, of stub 0]
    by (simp add: stub_def stub_request_def initial_state_def)
  have f: "fetch_with_client stub (stub_request ''PROJ-99'' ''tok'') 0
      = Inl (JIRAError (Some 404) ''Issue does not exist'')"
    by (rule fetch_with_client_issue_failure) (simp add: stub_def stub_request_def)
  have r: "fetch_epic_stories stub (stub_request ''PROJ-99'' ''tok'') initial_state
      = (Inl (jira_except (JIRAError (Some 404) ''Issue does not exist'')),
         initial_state\<lparr>jira_logins := Suc 0,
           cached_dict := [cache_key (stub_request ''PROJ-99'' ''tok'') \<mapsto> 0]\<rparr>)"
    by (rule fetch_epic_stories_later_failure [OF g f])
  have ne: "[cache_key (stub_request ''PROJ-99'' ''tok'') \<mapsto> (0::nat)]
      \<noteq> cached_dict (initial_state :: nat state)"
  proof
    assume "[cache_key (stub_request ''PROJ-99'' ''tok'') \<mapsto> (0::nat)]
      = cached_dict (initial_state :: nat state)"
    then have "[cache_key (stub_request ''PROJ-99'' ''tok'') \<mapsto> (0::nat)]
        (cache_key (stub_request ''PROJ-99'' ''tok''))
      = cached_dict (initial_state :: nat state) (cache_key (stub_request ''PROJ-99'' ''tok''))"
      by simp
    with miss show False by simp
  qed
  show ?thesis using miss iss ne by (simp add: r)
qed

text \<open>
  The handler reads \<^verbatim>\<open>jira_token\<close> only to construct a client.
\<close>

lemma story_item_token:
  "story_item (request\<lparr>jira_token := t\<rparr>) story = story_item request story"
  by (simp add: story_item_def)

lemma story_items_token:
  "story_items (request\<lparr>jira_token := t\<rparr>) found = story_items request found"
  by (induction found) (simp_all add: story_item_token)

lemma fetch_with_client_token:
  "fetch_with_client co (request\<lparr>jira_token := t\<rparr>) jira = fetch_with_client co request jira"
  by (simp add: fetch_with_client_def jql_query_def story_items_token)

lemma cache_key_token: "cache_key (request\<lparr>jira_token := t\<rparr>) = cache_key request"
  by (simp add: cache_key_def)

text \<open>
  Claim C10. When the session cache has a handle for the request's key,
  \<^verbatim>\<open>fetch_epic_stories\<close> returns the same response and the same state whatever
  the token: it uses the cached handle, constructs no client and leaves the state as it
  was.
\<close>

theorem fetch_epic_stories_ignores_token:
  "cached_dict s (cache_key request) \<noteq> None
   \<longrightarrow> fetch_epic_stories co (request\<lparr>jira_token := t\<rparr>) s = fetch_epic_stories co request s
       \<and> get_client co (request\<lparr>jira_token := t\<rparr>) s
           = (Inr (the (cached_dict s (cache_key request))), s)
       \<and> snd (fetch_epic_stories co request s) = s"
  by (auto simp: fetch_epic_stories_def get_client_hit cache_key_token fetch_with_client_token
      split: sum.splits)

theorem fetch_epic_stories_ignores_token_witness:
  "fetch_epic_stories stub (stub_request ''PROJ-10'' ''badtoken'')
       (initial_state\<lparr>cached_dict := [cache_key (stub_request ''PROJ-10'' ''tok'') \<mapsto> 5]\<rparr>)
     = fetch_epic_stories stub (stub_request ''PROJ-10'' ''tok'')
         (initial_state\<lparr>cached_dict := [cache_key (stub_request ''PROJ-10'' ''tok'') \<mapsto> 5]\<rparr>)"
  using fetch_epic_stories_ignores_token [of
      "initial_state\<lparr>cached_dict := [cache_key (stub_request ''PROJ-10'' ''tok'') \<mapsto> 5]\<rparr>"
      "stub_request ''PROJ-10'' ''tok''" stub "''badtoken''"]
  by (simp add: stub_request_def)

section \<open>Deduplication and token counts\<close>

text \<open>
  The three ways through \<^verbatim>\<open>generate_test_cases\<close>: a cached result, a failure
  of the language model, a new result that is stored.
\<close>

lemma generate_test_cases_hit:
  "test_case_cache s (request_cache_key co request) = Some r \<Longrightarrow>
   generate_test_cases co request s = (Inr r, s)"
  by (simp add: generate_test_cases_def)

lemma generate_test_cases_miss:
  "test_case_cache s (request_cache_key co request) = None \<Longrightarrow>
   llm_invoke co (llm_calls s)
     (test_case_prompt_format co (user_story request) (TestCaseRequest.jira_id request)
        (or_empty (acceptance_criteria request))) = Inr text \<Longrightarrow>
   generate_test_cases co request s
     = (Inr \<lparr>content = text, token_count = int (length (split text))\<rparr>,
        s\<lparr>llm_calls := Suc (llm_calls s),
          test_case_cache := (test_case_cache s)(request_cache_key co request \<mapsto>
             \<lparr>content = text, token_count = int (length (split text))\<rparr>)\<rparr>)"
  by (simp add: generate_test_cases_def Let_def)

lemma generate_test_cases_miss_failure:
  "test_case_cache s (request_cache_key co request) = None \<Longrightarrow>
   llm_invoke co (llm_calls s)
     (test_case_prompt_format co (user_story request) (TestCaseRequest.jira_id request)
        (or_empty (acceptance_criteria request))) = Inl e \<Longrightarrow>
   generate_test_cases co request s
     = (Inl (HTTPException 500 (''Error generating test cases: '' @ str_exn e)),
        s\<lparr>llm_calls := Suc (llm_calls s)\<rparr>)"
  by (simp add: generate_test_cases_def Let_def)

lemma generate_test_cases_cases:
  obtains (hit) r where "test_case_cache s (request_cache_key co request) = Some r"
      "generate_test_cases co request s = (Inr r, s)"
  | (failure) e where "test_case_cache s (request_cache_key co request) = None"
      "generate_test_cases co request s
        = (Inl (HTTPException 500 (''Error generating test cases: '' @ str_exn e)),
           s\<lparr>llm_calls := Suc (llm_calls s)\<rparr>)"
  | (stored) out where "test_case_cache s (request_cache_key co request) = None"
      "generate_test_cases co request s
        = (Inr \<lparr>content = out, token_count = int (length (split out))\<rparr>,
           s\<lparr>llm_calls := Suc (llm_calls s),
             test_case_cache := (test_case_cache s)(request_cache_key co request \<mapsto>
               \<lparr>content = out, token_count = int (length (split out))\<rparr>)\<rparr>)"
proof (cases "test_case_cache s (request_cache_key co request)")
  case (Some r)
  then show ?thesis using hit generate_test_cases_hit by blast
next
  case None
  show ?thesis
  proof (cases "llm_invoke co (llm_calls s)
     (test_case_prompt_format co (user_story request) (TestCaseRequest.jira_id request)
        (or_empty (acceptance_criteria request)))")
    case (Inl e)
    with None show ?thesis using failure generate_test_cases_miss_failure by blast
  next
    case (Inr out)
    with None show ?thesis using stored generate_test_cases_miss by blast
  qed
qed

text \<open>
  \<^verbatim>\<open>len(content.split())\<close> is the number of whitespace-delimited tokens.
\<close>

lemma token_starts_skip_space:
  "token_starts True (dropWhile isspace s) = token_starts True s"
  by (induction s) simp_all

lemma token_starts_skip_token:
  "token_starts True (dropWhile (\<lambda>c. \<not> isspace c) s) = token_starts False s"
  by (induction s) simp_all

lemma length_split: "length (split s) = whitespace_tokens s"
proof (induction s rule: split.induct)
  case (1 s)
  define s1 where "s1 = dropWhile isspace s"
  show ?case
  proof (cases "s1 = []")
    case True
    have "token_starts True s = token_starts True s1"
      by (simp only: s1_def token_starts_skip_space)
    with True have "token_starts True s = 0" by simp
    with True show ?thesis
      by (simp add: split.simps [of s] s1_def [symmetric] whitespace_tokens_def)
  next
    case False
    then obtain c cs where c: "s1 = c # cs" by (cases s1) auto
    from False have "\<not> isspace (hd s1)" unfolding s1_def by (rule hd_dropWhile)
    with c have nsp: "\<not> isspace c" by simp
    have ih: "length (split (dropWhile (\<lambda>c. \<not> isspace c) s1))
        = whitespace_tokens (dropWhile (\<lambda>c. \<not> isspace c) s1)"
      using "1.IH" [of s1] False by (simp add: s1_def)
    have "token_starts True s = token_starts True s1"
      by (simp add: s1_def token_starts_skip_space)
    also have "\<dots> = Suc (token_starts False cs)" using c nsp by simp
    also have "\<dots> = Suc (token_starts True (dropWhile (\<lambda>c. \<not> isspace c) s1))"
      using c nsp by (simp add: token_starts_skip_token)
    finally show ?thesis
      using False ih
      by (simp add: split.simps [of s] s1_def [symmetric] whitespace_tokens_def)
  qed
qed

lemma cached_token_count:
  "reachable co s \<Longrightarrow> test_case_cache s k = Some r \<Longrightarrow>
   token_count r = int (whitespace_tokens (content r))"
proof (induction arbitrary: k r rule: reachable.induct)
  case start
  then show ?case by (simp add: initial_state_def)
next
  case (authenticate s request)
  have "test_case_cache (snd (authenticate_jira co request s)) = test_case_cache s"
    by (simp add: authenticate_jira_def Let_def split: sum.splits)
  with authenticate show ?case by simp
next
  case (fetch s request)
  have "test_case_cache (snd (fetch_epic_stories co request s)) = test_case_cache s"
    by (simp add: fetch_epic_stories_def get_client_def Let_def split: sum.splits option.splits)
  with fetch show ?case by simp
next
  case (generate s tc_request)
  show ?case
  proof (cases rule: generate_test_cases_cases [of s co tc_request])
    case (hit r')
    with generate show ?thesis by simp
  next
    case (failure e)
    with generate show ?thesis by simp
  next
    case (stored out)
    with generate show ?thesis by (auto simp: length_split split: if_splits)
  qed
qed

text \<open>
  A stored result stays: the issue-tracker handlers leave the response cache alone, and
  \<^verbatim>\<open>generate_test_cases\<close> writes only under a key that was absent.
\<close>

lemma authenticate_jira_test_case_cache:
  "test_case_cache (snd (authenticate_jira co request s)) = test_case_cache s"
  by (simp add: authenticate_jira_def Let_def split: sum.splits)

lemma fetch_epic_stories_test_case_cache:
  "test_case_cache (snd (fetch_epic_stories co request s)) = test_case_cache s"
  by (simp add: fetch_epic_stories_def get_client_def Let_def split: sum.splits option.splits)

lemma generate_test_cases_keeps_entry:
  assumes "test_case_cache s k = Some r"
  shows "test_case_cache (snd (generate_test_cases co request s)) k = Some r"
proof (cases rule: generate_test_cases_cases [of s co request])
  case (hit r')
  with assms show ?thesis by simp
next
  case (failure e)
  with assms show ?thesis by simp
next
  case (stored out)
  with assms have "k \<noteq> request_cache_key co request" by auto
  with assms stored show ?thesis by simp
qed

lemma serve_keeps_entry:
  "test_case_cache s k = Some r \<Longrightarrow> test_case_cache (serve co q s) k = Some r"
  by (cases q)
    (simp_all add: authenticate_jira_test_case_cache fetch_epic_stories_test_case_cache
      generate_test_cases_keeps_entry)

lemma entry_persists:
  "test_case_cache s k = Some r \<Longrightarrow> test_case_cache (serve_all co later s) k = Some r"
  by (induction later arbitrary: s) (simp_all add: serve_keeps_entry)

lemma generate_test_cases_result_cached:
  assumes "fst (generate_test_cases co request s) = Inr r"
  shows "test_case_cache (snd (generate_test_cases co request s)) (request_cache_key co request)
           = Some r"
proof (cases rule: generate_test_cases_cases [of s co request])
  case (hit r')
  with assms show ?thesis by simp
next
  case (failure e)
  with assms show ?thesis by simp
next
  case (stored out)
  with assms show ?thesis by auto
qed

text \<open>
  Claim C5, as amended. When a call returns a result, every later call with the same
  user story, identifier and acceptance criteria, whatever requests have been handled in
  between, returns that same result and leaves the state as it is, so it does not invoke
  the language model; and when the key was not cached before the first call, that call
  has invoked the model exactly once.
\<close>

theorem generate_test_cases_once:
  "fst (generate_test_cases co request s) = Inr r
   \<longrightarrow> (\<forall>later.
          generate_test_cases co request
              (serve_all co later (snd (generate_test_cases co request s)))
            = (Inr r, serve_all co later (snd (generate_test_cases co request s))))
       \<and> (test_case_cache s (request_cache_key co request) = None
            \<longrightarrow> llm_calls (snd (generate_test_cases co request s)) = Suc (llm_calls s))"
proof (intro impI conjI allI)
  fix later
  assume "fst (generate_test_cases co request s) = Inr r"
  then have "test_case_cache (snd (generate_test_cases co request s))
      (request_cache_key co request) = Some r"
    by (rule generate_test_cases_result_cached)
  then have "test_case_cache (serve_all co later (snd (generate_test_cases co request s)))
      (request_cache_key co request) = Some r"
    by (rule entry_persists)
  then show "generate_test_cases co request
              (serve_all co later (snd (generate_test_cases co request s)))
            = (Inr r, serve_all co later (snd (generate_test_cases co request s)))"
    by (rule generate_test_cases_hit)
next
  assume ok: "fst (generate_test_cases co request s) = Inr r"
    and miss: "test_case_cache s (request_cache_key co request) = None"
  show "llm_calls (snd (generate_test_cases co request s)) = Suc (llm_calls s)"
  proof (cases rule: generate_test_cases_cases [of s co request])
    case (hit r')
    with miss show ?thesis by simp
  next
    case (failure e)
    then show ?thesis by simp
  next
    case (stored out)
    then show ?thesis by simp
  qed
qed

text \<open>
  Scenario B of the specification, with a request for another story handled in between.
  The stub gives its second answer to that request; the repeated call still returns the
  first one and the count of invocations stays at two.
\<close>

lemma scenario_b_first:
  "generate_test_cases stub scenario_b initial_state
     = (Inr \<lparr>content = ''Verify login  works'', token_count = 3\<rparr>,
        initial_state\<lparr>llm_calls := Suc 0,
          test_case_cache := [request_cache_key stub scenario_b \<mapsto>
             \<lparr>content = ''Verify login  works'', token_count = 3\<rparr>]\<rparr>)"
proof -
  have n: "int (length (split ''Verify login  works'')) = 3"
    by (simp add: length_split whitespace_tokens_def isspace_def)
  have "generate_test_cases stub scenario_b (initial_state :: nat state)
     = (Inr \<lparr>content = ''Verify login  works'',
              token_count = int (length (split ''Verify login  works''))\<rparr>,
        initial_state\<lparr>llm_calls := Suc (llm_calls (initial_state :: nat state)),
          test_case_cache := (test_case_cache (initial_state :: nat state))
            (request_cache_key stub scenario_b \<mapsto>
             \<lparr>content = ''Verify login  works'',
               token_count = int (length (split ''Verify login  works''))\<rparr>)\<rparr>)"
    by (rule generate_test_cases_miss)
      (simp_all add: initial_state_def stub_def scenario_b_def or_empty_def)
  then show ?thesis by (simp add: n initial_state_def)
qed

lemma other_request_next:
  "generate_test_cases stub other_request
       (snd (generate_test_cases stub scenario_b initial_state))
     = (Inr \<lparr>content = ''Another answer'', token_count = 2\<rparr>,
        (snd (generate_test_cases stub scenario_b initial_state))
          \<lparr>llm_calls := 2,
            test_case_cache :=
              [request_cache_key stub scenario_b \<mapsto>
                 \<lparr>content = ''Verify login  works'', token_count = 3\<rparr>,
               request_cache_key stub other_request \<mapsto>
                 \<lparr>content = ''Another answer'', token_count = 2\<rparr>]\<rparr>)"
proof -
  have n: "int (length (split ''Another answer'')) = 2"
    by (simp add: length_split whitespace_tokens_def isspace_def)
  have k: "request_cache_key stub other_request \<noteq> request_cache_key stub scenario_b"
    by (simp add: request_cache_key_def create_cache_key_def combined_def stub_def
        other_request_def scenario_b_def or_empty_def)
  let ?s1 = "initial_state\<lparr>llm_calls := Suc 0,
          test_case_cache := [request_cache_key stub scenario_b \<mapsto>
             \<lparr>content = ''Verify login  works'', token_count = 3\<rparr>]\<rparr> :: nat state"
  have "generate_test_cases stub other_request ?s1
     = (Inr \<lparr>content = ''Another answer'',
              token_count = int (length (split ''Another answer''))\<rparr>,
        ?s1\<lparr>llm_calls := Suc (llm_calls ?s1),
          test_case_cache := (test_case_cache ?s1)
            (request_cache_key stub other_request \<mapsto>
             \<lparr>content = ''Another answer'',
               token_count = int (length (split ''Another answer''))\<rparr>)\<rparr>)"
    by (rule generate_test_cases_miss) (simp_all add: k, simp add: stub_def other_request_def or_empty_def)
  then show ?thesis by (simp add: n scenario_b_first)
qed

theorem generate_test_cases_once_witness:
  "fst (generate_test_cases stub scenario_b initial_state)
     = Inr \<lparr>content = ''Verify login  works'', token_count = 3\<rparr>
   \<and> llm_calls (snd (generate_test_cases stub scenario_b initial_state)) = 1
   \<and> generate_test_cases stub scenario_b
         (serve_all stub [GenerateTestCases other_request]
            (snd (generate_test_cases stub scenario_b initial_state)))
       = (Inr \<lparr>content = ''Verify login  works'', token_count = 3\<rparr>,
          serve_all stub [GenerateTestCases other_request]
            (snd (generate_test_cases stub scenario_b initial_state)))
   \<and> llm_calls (serve_all stub [GenerateTestCases other_request]
            (snd (generate_test_cases stub scenario_b initial_state))) = 2"
proof -
  have first: "fst (generate_test_cases stub scenario_b initial_state)
     = Inr \<lparr>content = ''Verify login  works'', token_count = 3\<rparr>"
    by (simp add: scenario_b_first)
  have miss: "test_case_cache (initial_state :: nat state) (request_cache_key stub scenario_b) = None"
    by (simp add: initial_state_def)
  have between: "llm_calls (serve_all stub [GenerateTestCases other_request]
               (snd (generate_test_cases stub scenario_b initial_state))) = 2"
    by (simp add: other_request_next)
  have later: "\<forall>later. generate_test_cases stub scenario_b
         (serve_all stub later (snd (generate_test_cases stub scenario_b initial_state)))
       = (Inr \<lparr>content = ''Verify login  works'', token_count = 3\<rparr>,
          serve_all stub later (snd (generate_test_cases stub scenario_b initial_state)))"
    and once: "llm_calls (snd (generate_test_cases stub scenario_b initial_state)) = 1"
    using generate_test_cases_once [of stub scenario_b initial_state
        "\<lparr>content = ''Verify login  works'', token_count = 3\<rparr>"] first miss
    by (simp_all add: initial_state_def)
  from later have "generate_test_cases stub scenario_b
         (serve_all stub [GenerateTestCases other_request]
            (snd (generate_test_cases stub scenario_b initial_state)))
       = (Inr \<lparr>content = ''Verify login  works'', token_count = 3\<rparr>,
          serve_all stub [GenerateTestCases other_request]
            (snd (generate_test_cases stub scenario_b initial_state)))"
    by (rule spec)
  with first once between show ?thesis by (intro conjI)
qed

text \<open>
  Claim C5 as stated fails when the model fails on the first call: nothing is stored, the
  first call returns a 500 error, the identical second call invokes the model again and
  returns a result.
\<close>

theorem generate_test_cases_retry_after_failure:
  "fst (generate_test_cases flaky_stub scenario_b initial_state)
     = Inl (HTTPException 500 ''Error generating test cases: timed out'')
   \<and> fst (generate_test_cases flaky_stub scenario_b
            (snd (generate_test_cases flaky_stub scenario_b initial_state)))
     = Inr \<lparr>content = ''Verify login  works'', token_count = 3\<rparr>
   \<and> llm_calls (snd (generate_test_cases flaky_stub scenario_b
            (snd (generate_test_cases flaky_stub scenario_b initial_state)))) = 2"
proof -
  let ?s1 = "initial_state\<lparr>llm_calls := Suc 0\<rparr> :: nat state"
  have n: "int (length (split ''Verify login  works'')) = 3"
    by (simp add: length_split whitespace_tokens_def isspace_def)
  have l0: "llm_calls (initial_state :: nat state) = 0"
    by (simp add: initial_state_def)
  have "generate_test_cases flaky_stub scenario_b (initial_state :: nat state)
      = (Inl (HTTPException 500
               (''Error generating test cases: '' @ str_exn (Exception ''timed out''))),
         initial_state\<lparr>llm_calls := Suc (llm_calls (initial_state :: nat state))\<rparr>)"
    by (rule generate_test_cases_miss_failure)
      (simp_all add: initial_state_def flaky_stub_def)
  then have first: "generate_test_cases flaky_stub scenario_b (initial_state :: nat state)
      = (Inl (HTTPException 500 ''Error generating test cases: timed out''), ?s1)"
    by (simp add: l0)
  have "generate_test_cases flaky_stub scenario_b ?s1
     = (Inr \<lparr>content = ''Verify login  works'',
              token_count = int (length (split ''Verify login  works''))\<rparr>,
        ?s1\<lparr>llm_calls := Suc (llm_calls ?s1),
          test_case_cache := (test_case_cache ?s1)
            (request_cache_key flaky_stub scenario_b \<mapsto>
             \<lparr>content = ''Verify login  works'',
               token_count = int (length (split ''Verify login  works''))\<rparr>)\<rparr>)"
    by (rule generate_test_cases_miss) (simp_all add: initial_state_def flaky_stub_def)
  then have second: "fst (generate_test_cases flaky_stub scenario_b ?s1)
        = Inr \<lparr>content = ''Verify login  works'', token_count = 3\<rparr>
      \<and> llm_calls (snd (generate_test_cases flaky_stub scenario_b ?s1)) = 2"
    by (simp add: n)
  from first have s1: "snd (generate_test_cases flaky_stub scenario_b (initial_state :: nat state)) = ?s1"
    by simp
  from first have "fst (generate_test_cases flaky_stub scenario_b (initial_state :: nat state))
      = Inl (HTTPException 500 ''Error generating test cases: timed out'')"
    by simp
  with second show ?thesis unfolding s1 by (intro conjI) simp_all
qed

text \<open>
  Claim C6. In every state the process can reach, every stored result and every result
  returned by \<^verbatim>\<open>generate_test_cases\<close> has as \<^verbatim>\<open>token_count\<close> the number
  of whitespace-delimited tokens of its \<^verbatim>\<open>content\<close>.
\<close>

theorem token_count_is_whitespace_tokens:
  "reachable co s
   \<longrightarrow> (\<forall>k r. test_case_cache s k = Some r
            \<longrightarrow> token_count r = int (whitespace_tokens (content r)))
       \<and> (\<forall>r. fst (generate_test_cases co request s) = Inr r
            \<longrightarrow> token_count r = int (whitespace_tokens (content r)))"
proof (intro impI conjI allI)
  fix k r
  assume "reachable co s" and "test_case_cache s k = Some r"
  then show "token_count r = int (whitespace_tokens (content r))"
    by (rule cached_token_count)
next
  fix r
  assume re: "reachable co s" and ok: "fst (generate_test_cases co request s) = Inr r"
  show "token_count r = int (whitespace_tokens (content r))"
  proof (cases rule: generate_test_cases_cases [of s co request])
    case (hit r')
    with ok re show ?thesis using cached_token_count [of co s _ r] by simp
  next
    case (failure e)
    with ok show ?thesis by simp
  next
    case (stored out)
    with ok show ?thesis by (auto simp: length_split)
  qed
qed

theorem token_count_is_whitespace_tokens_witness:
  "reachable stub (initial_state :: nat state)
   \<and> (\<exists>r. fst (generate_test_cases stub scenario_b initial_state) = Inr r
          \<and> content r = ''Verify login  works''
          \<and> token_count r = int (whitespace_tokens (content r)))"
proof -
  have re: "reachable stub (initial_state :: nat state)" by (rule reachable.start)
  have first: "fst (generate_test_cases stub scenario_b initial_state)
     = Inr \<lparr>content = ''Verify login  works'', token_count = 3\<rparr>"
    by (simp add: scenario_b_first)
  show ?thesis
    using token_count_is_whitespace_tokens [of stub initial_state scenario_b] re first
    by simp
qed

section \<open>The status of a story\<close>

lemma story_item_status:
  assumes "story_item request story = Inr item"
  shows "\<exists>fields. getattr story ''fields'' = Inr fields
           \<and> (if hasattr fields ''name''
               then \<exists>st n. getattr fields ''status'' = Inr st \<and> getattr st ''name'' = Inr n
                       \<and> as_optional_str ''status'' n = Inr (status item)
               else status item = None)"
proof -
  from assms obtain status_v where sv: "story_status story = Inr status_v"
    and st: "as_optional_str ''status'' status_v = Inr (status item)"
    by (auto simp: story_item_def bind_exn_Inr)
  from sv obtain fields where f: "getattr story ''fields'' = Inr fields"
    and g: "(if hasattr fields ''name''
             then bind_exn (getattr fields ''status'') (\<lambda>st. getattr st ''name'')
             else Inr PNone) = Inr status_v"
    by (auto simp: story_status_def bind_exn_Inr)
  show ?thesis
  proof (cases "hasattr fields ''name''")
    case True
    with g st f show ?thesis by (auto simp: bind_exn_Inr)
  next
    case False
    with g have "status_v = PNone" by simp
    with st False f show ?thesis by simp
  qed
qed

lemma story_items_each:
  "story_items request found = Inr items \<Longrightarrow>
   list_all2 (\<lambda>story item. story_item request story = Inr item) found items"
  by (induction found arbitrary: items) (auto simp: bind_exn_Inr)

lemma fetch_epic_stories_success:
  assumes "fst (fetch_epic_stories co request s) = Inr response"
  shows "\<exists>jira found. fst (get_client co request s) = Inr jira
           \<and> search_issues co jira (jql_query request) 100 = Inr found
           \<and> story_items request found = Inr (stories response)"
proof -
  obtain r s1 where g: "get_client co request s = (r, s1)" by (cases "get_client co request s")
  with assms obtain jira where j: "r = Inr jira"
    and w: "fetch_with_client co request jira = Inr response"
    by (auto simp: fetch_epic_stories_def split: sum.splits)
  from w obtain found where "search_issues co jira (jql_query request) 100 = Inr found"
    and "story_items request found = Inr (stories response)"
    by (auto simp: fetch_with_client_def bind_exn_Inr)
  with g j show ?thesis by simp
qed

text \<open>
  Claim C9. For every story of a response, the status is the \<^verbatim>\<open>name\<close> of the
  story's \<^verbatim>\<open>fields.status\<close> when the \<^verbatim>\<open>fields\<close> object itself has an
  attribute \<^verbatim>\<open>name\<close>, and \<^verbatim>\<open>None\<close> otherwise, whatever the status
  object holds.
\<close>

theorem fetched_story_status:
  "fst (fetch_epic_stories co request s) = Inr response
   \<longrightarrow> (\<exists>jira found. search_issues co jira (jql_query request) 100 = Inr found
          \<and> list_all2 (\<lambda>story item.
                \<exists>fields. getattr story ''fields'' = Inr fields
                  \<and> (if hasattr fields ''name''
                      then \<exists>st n. getattr fields ''status'' = Inr st
                              \<and> getattr st ''name'' = Inr n
                              \<and> as_optional_str ''status'' n = Inr (status item)
                      else status item = None))
              found (stories response))"
proof
  assume "fst (fetch_epic_stories co request s) = Inr response"
  then obtain jira found where "search_issues co jira (jql_query request) 100 = Inr found"
    and "story_items request found = Inr (stories response)"
    using fetch_epic_stories_success by blast
  moreover from this have "list_all2 (\<lambda>story item. story_item request story = Inr item)
      found (stories response)"
    by (simp add: story_items_each)
  then have "list_all2 (\<lambda>story item.
                \<exists>fields. getattr story ''fields'' = Inr fields
                  \<and> (if hasattr fields ''name''
                      then \<exists>st n. getattr fields ''status'' = Inr st
                              \<and> getattr st ''name'' = Inr n
                              \<and> as_optional_str ''status'' n = Inr (status item)
                      else status item = None))
              found (stories response)"
    by (rule list_all2_mono) (rule story_item_status)
  ultimately show "\<exists>jira found. search_issues co jira (jql_query request) 100 = Inr found
          \<and> list_all2 (\<lambda>story item.
                \<exists>fields. getattr story ''fields'' = Inr fields
                  \<and> (if hasattr fields ''name''
                      then \<exists>st n. getattr fields ''status'' = Inr st
                              \<and> getattr st ''name'' = Inr n
                              \<and> as_optional_str ''status'' n = Inr (status item)
                      else status item = None))
              found (stories response)"
    by blast
qed

text \<open>
  The two stories of the stub both have the status \<^verbatim>\<open>Open\<close> at the tracker. The
  first comes back without a status; the second, whose fields carry an attribute
  \<^verbatim>\<open>name\<close>, comes back with it.
\<close>

lemma stub_fetch:
  "fst (fetch_epic_stories stub (stub_request ''PROJ-10'' ''tok'') initial_state)
     = Inr stub_response"
  by code_simp

theorem fetched_story_status_witness:
  "fst (fetch_epic_stories stub (stub_request ''PROJ-10'' ''tok'') initial_state)
     = Inr stub_response
   \<and> map status (stories stub_response) = [None, Some ''Open'']
   \<and> (\<exists>jira found.
          search_issues stub jira (jql_query (stub_request ''PROJ-10'' ''tok'')) 100 = Inr found
          \<and> list_all2 (\<lambda>story item.
                \<exists>fields. getattr story ''fields'' = Inr fields
                  \<and> (if hasattr fields ''name''
                      then \<exists>st n. getattr fields ''status'' = Inr st
                              \<and> getattr st ''name'' = Inr n
                              \<and> as_optional_str ''status'' n = Inr (status item)
                      else status item = None))
              found (stories stub_response))"
  using fetched_story_status [of stub "stub_request ''PROJ-10'' ''tok''" initial_state
      stub_response] stub_fetch
  by (simp add: stub_response_def)

end
